theory Spec2Isabelle
  imports Complex_Main
begin

section \<open>The pull example of the audio converter (example-pull.c)\<close>

text \<open>
  The repository's source is the example program: its constants, the \<open>slices\<close> table,
  the producer callback and \<open>main\<close>. The converter library it calls
  (\<open>drb-audio-converter.h\<close>) is not part of the sources.
\<close>

subsection \<open>Constants and the slice table\<close>

text \<open>\<^verbatim>\<open>enum { channel_count = 2 };\<close> and \<^verbatim>\<open>enum { total_frame_count = 400 };\<close>\<close>

definition channel_count :: nat where
  "channel_count = 2"

definition total_frame_count :: int where
  "total_frame_count = 400"

text \<open>\<^verbatim>\<open>static int const slices [] = { 13, 17, 4, 7, 5, 4, 21, 29, 300 };\<close>\<close>

definition slices :: "int list" where
  "slices = [13, 17, 4, 7, 5, 4, 21, 29, 300]"

text \<open>\<^verbatim>\<open>enum { slice_count = sizeof(slices) / sizeof(int) };\<close>\<close>

definition slice_count :: nat where
  "slice_count = length slices"

subsection \<open>Channel buffers\<close>

text \<open>
  \<open>main\<close> declares \<^verbatim>\<open>float samples [channel_count][total_frame_count]\<close> and hands the
  converter one \<open>DrB_Audio_Converter_Buffer\<close> per channel whose \<open>samples\<close> field is the
  pointer \<^verbatim>\<open>samples[channel] + offset\<close>. A pointer into that array is modelled by the row
  it points into and the element offset within the row.
\<close>

datatype sample_ptr = Samples_Row nat int

record DrB_Audio_Converter_Buffer =
  samples :: sample_ptr

text \<open>
  A call of \<open>drb_audio_converter_process\<close> as \<open>main\<close> issues it: the buffers and the
  frame count (the converter and work memory arguments are the same in every call).
\<close>

type_synonym process_call = "DrB_Audio_Converter_Buffer list \<times> int"

text \<open>
  The pointer lies inside row \<open>c\<close> of the array (one past the last element included, as
  C allows for a pointer that is not dereferenced).
\<close>

fun ptr_in_samples :: "sample_ptr \<Rightarrow> bool" where
  "ptr_in_samples (Samples_Row c off) =
     (c < channel_count \<and> 0 \<le> off \<and> off \<le> total_frame_count)"

text \<open>The \<open>n\<close> frames that start at the pointer all lie inside its row.\<close>

fun frames_in_samples :: "sample_ptr \<Rightarrow> int \<Rightarrow> bool" where
  "frames_in_samples (Samples_Row c off) n =
     (c < channel_count \<and> 0 \<le> off \<and> 0 \<le> n \<and> off + n \<le> total_frame_count)"

definition call_in_samples :: "process_call \<Rightarrow> bool" where
  "call_in_samples call =
     (length (fst call) = channel_count \<and>
      list_all (\<lambda>b. ptr_in_samples (samples b) \<and> frames_in_samples (samples b) (snd call))
        (fst call))"

subsection \<open>The slice loop of main\<close>

text \<open>
  \<^verbatim>\<open>
  for (int index = 0, offset = 0; index < slice_count; index++)
  {
      DrB_Audio_Converter_Buffer buffers [channel_count];
      for (int channel = 0; channel < channel_count; channel++)
          buffers[channel].samples = samples[channel] + offset;
      drb_audio_converter_process(converter_memory, work_memory, buffers, slices[index]);
      offset += slices[index];
      assert(offset <= total_frame_count);
  }
  \<close>
  The library function is not in the sources, so the loop takes it as the parameter
  \<open>process\<close>, a transformer of whatever state the program has (converter memory, work
  memory, the sample array, the counter). A failed \<open>assert\<close> is the result \<open>None\<close>;
  a completed loop returns the final state and the final \<open>offset\<close>. The C \<open>int\<close>
  variables are modelled by \<open>int\<close>; the theorem below bounds every value of \<open>offset\<close>
  by 400, so no arithmetic of the loop leaves the range of a C \<open>int\<close>.
\<close>

definition make_buffers :: "int \<Rightarrow> DrB_Audio_Converter_Buffer list" where
  "make_buffers offset =
     map (\<lambda>channel. \<lparr>samples = Samples_Row channel offset\<rparr>) [0..<channel_count]"

function slice_loop ::
  "('st \<Rightarrow> DrB_Audio_Converter_Buffer list \<Rightarrow> int \<Rightarrow> 'st) \<Rightarrow> 'st \<Rightarrow> nat \<Rightarrow> int
     \<Rightarrow> ('st \<times> int) option" where
  "slice_loop process st index offset =
     (if index < slice_count then
        (let buffers = make_buffers offset;
             st' = process st buffers (slices ! index);
             offset' = offset + slices ! index
         in if offset' \<le> total_frame_count
            then slice_loop process st' (index + 1) offset'
            else None)
      else Some (st, offset))"
  by pat_completeness auto
termination
  by (relation "measure (\<lambda>(process, st, index, offset). slice_count - index)") auto

declare slice_loop.simps [simp del]

text \<open>
  Observing the calls: a \<open>process\<close> that does nothing but append its arguments to a list.
\<close>

definition record_call ::
  "process_call list \<Rightarrow> DrB_Audio_Converter_Buffer list \<Rightarrow> int \<Rightarrow> process_call list" where
  "record_call calls buffers frame_count = calls @ [(buffers, frame_count)]"

text \<open>The running totals of the slice sizes: the values \<open>offset\<close> takes after each iteration.\<close>

definition partial_sums :: "int list \<Rightarrow> int list" where
  "partial_sums xs = map (\<lambda>k. sum_list (take k xs)) [1..<length xs + 1]"

section \<open>The phase accumulator of the resampling core\<close>

text \<open>
  Modelled from the spec: the resampling core of the converter library, and with it the
  PhaseAccumulator, is not in the sources. The spec (section 4.3) describes it as:
  ``PhaseAccumulator (tracks the exact fractional input position corresponding to the next
  output sample, advanced by \<open>sourceRate/targetRate\<close> per output frame, with integer and
  fractional parts kept separate to avoid drift)''. The integer part counts whole source
  frames; the fractional part is kept as a count of \<open>1/targetRate\<close>-ths of a source frame.
\<close>

record PhaseAccumulator =
  whole :: nat
  fraction :: nat

text \<open>
  Modelled from the spec: the step of the absent resampling core, ``advance
  PhaseAccumulator by one target-to-source step'' (section 4.3, step 3), that is by
  \<open>sourceRate/targetRate\<close> source frames: the fractional part grows by \<open>sourceRate\<close> units
  and every full \<open>targetRate\<close> units carry one into the integer part.
\<close>

definition advance :: "nat \<Rightarrow> nat \<Rightarrow> PhaseAccumulator \<Rightarrow> PhaseAccumulator" where
  "advance sourceRate targetRate acc =
     (let units = fraction acc + sourceRate
      in \<lparr>whole = whole acc + units div targetRate, fraction = units mod targetRate\<rparr>)"

text \<open>
  Modelled from the spec: the absent core's treatment of a batch, ``for each of the \<open>N\<close>
  output frames \<dots> advance PhaseAccumulator by one target-to-source step'' (section 4.3,
  step 3): one step per output frame of the batch.
\<close>

fun advance_frames :: "nat \<Rightarrow> nat \<Rightarrow> nat \<Rightarrow> PhaseAccumulator \<Rightarrow> PhaseAccumulator" where
  "advance_frames sourceRate targetRate 0 acc = acc"
| "advance_frames sourceRate targetRate (Suc n) acc =
     advance_frames sourceRate targetRate n (advance sourceRate targetRate acc)"

text \<open>
  Modelled from the spec: the accumulator of the absent converter over a sequence of batches
  (the chunks and calls of section 4.4); it persists from one batch to the next.
\<close>

fun advance_batches ::
  "nat \<Rightarrow> nat \<Rightarrow> nat list \<Rightarrow> PhaseAccumulator \<Rightarrow> PhaseAccumulator" where
  "advance_batches sourceRate targetRate [] acc = acc"
| "advance_batches sourceRate targetRate (n # ns) acc =
     advance_batches sourceRate targetRate ns (advance_frames sourceRate targetRate n acc)"

text \<open>
  Modelled from the spec: the ``fractional input position'' the accumulator tracks, in
  source frames (one unit is one sample period of the source), as an exact rational.
\<close>

definition tracked_position :: "nat \<Rightarrow> PhaseAccumulator \<Rightarrow> rat" where
  "tracked_position targetRate acc =
     of_nat (whole acc) + of_nat (fraction acc) / of_nat targetRate"

text \<open>
  Modelled from the spec: the exact step \<open>sourceRate/targetRate\<close> of the input position
  per output frame.
\<close>

definition exact_step :: "nat \<Rightarrow> nat \<Rightarrow> rat" where
  "exact_step sourceRate targetRate = of_nat sourceRate / of_nat targetRate"

section \<open>Properties of the slice loop\<close>

lemma partial_sums_slices: "partial_sums slices = [13, 30, 34, 41, 46, 50, 71, 100, 400]"
  by (simp add: partial_sums_def slices_def upt_rec)

lemma slice_loop_completes:
  "map_option snd (slice_loop process st 0 0) = Some total_frame_count"
  by (simp add: slice_loop.simps slice_count_def slices_def total_frame_count_def Let_def)

lemma slice_loop_calls:
  "map_option fst (slice_loop record_call [] 0 0) =
     Some (map (\<lambda>(offset, frame_count). (make_buffers offset, frame_count))
            [(0, 13), (13, 17), (30, 4), (34, 7), (41, 5), (46, 4), (50, 21), (71, 29),
             (100, 300)])"
  by (simp add: slice_loop.simps slice_count_def slices_def total_frame_count_def Let_def
      record_call_def)

lemma slice_loop_calls_in_samples:
  "map_option (list_all call_in_samples \<circ> fst) (slice_loop record_call [] 0 0) = Some True"
  by (simp add: slice_loop.simps slice_count_def slices_def total_frame_count_def Let_def
      record_call_def call_in_samples_def make_buffers_def channel_count_def upt_rec)

text \<open>
  Claim C10. For the slice table \<open>{13, 17, 4, 7, 5, 4, 21, 29, 300}\<close> the running totals are
  13, 30, 34, 41, 46, 50, 71, 100 and 400: each is at most \<open>total_frame_count = 400\<close> and the
  last one is exactly 400. Hence, whatever \<open>drb_audio_converter_process\<close> does to the
  program state, the loop of \<open>main\<close> passes its assertion \<open>offset <= total_frame_count\<close>
  in every iteration and ends with \<open>offset = 400\<close>; and in each of the nine calls every
  buffer pointer \<open>samples[channel] + offset\<close>, together with the \<open>slices[index]\<close> frames
  that start there, lies inside the 400-frame row of its channel.
\<close>

theorem slices_stay_within_total_frame_count:
  "partial_sums slices = [13, 30, 34, 41, 46, 50, 71, 100, 400]
   \<and> list_all (\<lambda>offset. 0 \<le> offset \<and> offset \<le> total_frame_count) (partial_sums slices)
   \<and> sum_list slices = total_frame_count
   \<and> map_option snd (slice_loop process st 0 0) = Some total_frame_count
   \<and> map_option fst (slice_loop record_call [] 0 0) =
       Some (map (\<lambda>(offset, frame_count). (make_buffers offset, frame_count))
              [(0, 13), (13, 17), (30, 4), (34, 7), (41, 5), (46, 4), (50, 21), (71, 29),
               (100, 300)])
   \<and> map_option (list_all call_in_samples \<circ> fst) (slice_loop record_call [] 0 0) = Some True"
proof -
  have sums: "list_all (\<lambda>offset. 0 \<le> offset \<and> offset \<le> total_frame_count)
                (partial_sums slices)"
    by (simp add: partial_sums_slices total_frame_count_def)
  have total: "sum_list slices = total_frame_count"
    by (simp add: slices_def total_frame_count_def)
  show ?thesis
    using partial_sums_slices sums total slice_loop_completes [of process st]
      slice_loop_calls slice_loop_calls_in_samples
    by (intro conjI)
qed

section \<open>Properties of the phase accumulator\<close>

lemma advance_units:
  "0 < t \<Longrightarrow>
     whole (advance s t a) * t + fraction (advance s t a) = whole a * t + fraction a + s"
  by (simp add: advance_def Let_def add_mult_distrib algebra_simps)

lemma advance_fraction: "0 < t \<Longrightarrow> fraction (advance s t a) < t"
  by (simp add: advance_def Let_def)

lemma advance_frames_units:
  "0 < t \<Longrightarrow>
     whole (advance_frames s t n a) * t + fraction (advance_frames s t n a)
       = whole a * t + fraction a + n * s"
proof (induction n arbitrary: a)
  case 0
  then show ?case by simp
next
  case (Suc n)
  from Suc.IH [OF Suc.prems, of "advance s t a"] advance_units [OF Suc.prems, of s a]
  show ?case by (simp add: algebra_simps)
qed

lemma advance_frames_fraction:
  "0 < t \<Longrightarrow> fraction a < t \<Longrightarrow> fraction (advance_frames s t n a) < t"
  by (induction n arbitrary: a) (simp_all add: advance_fraction)

lemma advance_batches_units:
  "0 < t \<Longrightarrow>
     whole (advance_batches s t ns a) * t + fraction (advance_batches s t ns a)
       = whole a * t + fraction a + sum_list ns * s"
proof (induction ns arbitrary: a)
  case Nil
  then show ?case by simp
next
  case (Cons n ns)
  from Cons.IH [OF Cons.prems, of "advance_frames s t n a"]
    advance_frames_units [OF Cons.prems, of s n a]
  show ?case by (simp add: algebra_simps)
qed

lemma advance_batches_fraction:
  "0 < t \<Longrightarrow> fraction a < t \<Longrightarrow> fraction (advance_batches s t ns a) < t"
  by (induction ns arbitrary: a) (simp_all add: advance_frames_fraction)

lemma tracked_position_units:
  assumes "0 < t"
  shows "tracked_position t a = of_nat (whole a * t + fraction a) / of_nat t"
  using assms by (simp add: tracked_position_def field_simps)

text \<open>
  Claim C8. However many output frames are processed, and however they are grouped into
  batches, the accumulator advances by exactly \<open>sourceRate/targetRate\<close> source frames per
  output frame: after \<open>n\<close> frames in total the tracked position is the position before
  plus \<open>n * sourceRate / targetRate\<close>, as exact rationals. The fractional part stays
  below one source frame (the integer and fractional parts stay separate), and the tracked
  position is never more than one sample period away from the exact position (it is never
  away from it at all).
\<close>

theorem phase_accumulator_tracks_exact_position:
  assumes "0 < targetRate" and "fraction acc < targetRate"
  shows "tracked_position targetRate (advance_batches sourceRate targetRate batches acc)
           = tracked_position targetRate acc
             + of_nat (sum_list batches) * exact_step sourceRate targetRate
         \<and> fraction (advance_batches sourceRate targetRate batches acc) < targetRate
         \<and> \<bar>tracked_position targetRate (advance_batches sourceRate targetRate batches acc)
              - (tracked_position targetRate acc
                 + of_nat (sum_list batches) * exact_step sourceRate targetRate)\<bar> \<le> 1"
proof -
  let ?b = "advance_batches sourceRate targetRate batches acc"
  let ?n = "sum_list batches"
  have u: "whole ?b * targetRate + fraction ?b
             = whole acc * targetRate + fraction acc + ?n * sourceRate"
    by (rule advance_batches_units [OF assms(1)])
  have f: "fraction ?b < targetRate"
    by (rule advance_batches_fraction [OF assms])
  have "tracked_position targetRate ?b
          = of_nat (whole acc * targetRate + fraction acc + ?n * sourceRate) / of_nat targetRate"
    by (simp only: tracked_position_units [OF assms(1)] u)
  also have "\<dots> = of_nat (whole acc * targetRate + fraction acc) / of_nat targetRate
                    + of_nat ?n * exact_step sourceRate targetRate"
    by (simp add: exact_step_def add_divide_distrib)
  finally have p: "tracked_position targetRate ?b
                     = tracked_position targetRate acc
                       + of_nat ?n * exact_step sourceRate targetRate"
    by (simp only: tracked_position_units [OF assms(1)])
  show ?thesis using p f by simp
qed

text \<open>
  The theorem at 44100 Hz to 48000 Hz, from the accumulator at position zero, over the
  example's slices followed by one long batch, 48000 output frames in all: the tracked
  position is then exactly 44100 source frames.
\<close>

theorem phase_accumulator_tracks_exact_position_witness:
  "(0::nat) < 48000
   \<and> fraction \<lparr>whole = 0, fraction = 0\<rparr> < 48000
   \<and> tracked_position 48000
        (advance_batches 44100 48000 [13, 17, 4, 7, 5, 4, 21, 29, 300, 47600]
           \<lparr>whole = 0, fraction = 0\<rparr>) = 44100
   \<and> fraction (advance_batches 44100 48000 [13, 17, 4, 7, 5, 4, 21, 29, 300, 47600]
        \<lparr>whole = 0, fraction = 0\<rparr>) < 48000"
  using phase_accumulator_tracks_exact_position
    [of 48000 "\<lparr>whole = 0, fraction = 0\<rparr>" 44100 "[13, 17, 4, 7, 5, 4, 21, 29, 300, 47600]"]
  by (simp add: tracked_position_def exact_step_def)

end
